theory Spec2Isabelle
  imports Main "HOL-Library.Word" "HOL-Library.Sublist"
begin

section \<open>Errors (errors.ts)\<close>

text \<open>
  Every exception class of \<^verbatim>\<open>errors.ts\<close> is a constructor carrying the message given to
  \<^verbatim>\<open>new X(message)\<close> (the empty string when the source passes none). \<open>Error\<close>,
  \<open>RangeError\<close> and \<open>TypeError\<close> are the built-in JavaScript classes the source throws
  or that the runtime throws when a value that is not a function is called.
  A JavaScript string is modelled as \<open>string\<close>: one list element for each code unit that
  \<^verbatim>\<open>s.length\<close> counts and \<^verbatim>\<open>s[i]\<close> reads.
\<close>

datatype error =
    ObjectDisposed string
  | InvalidProtocolBuffer string
  | InvalidPointer string
  | InvalidArguments string
  | EmptyParams string
  | NormalizationError string
  | PreTokenizationError string
  | TokenizerBuildError string
  | TokenizerTrainingError string
  | TokenizerSaveError string
  | TokenizerLoadFileError string
  | TokenizerEncodingError string
  | TokenizerDecodingError string
  | RangeError string
  | TypeError string
  | Error string


section \<open>Numbers in template literals\<close>

text \<open>
  \<^verbatim>\<open>`${n}`\<close> of an integer-valued JavaScript number is its decimal numeral, with a
  leading minus sign when negative.
\<close>

fun show_nat :: "nat \<Rightarrow> string" where
  "show_nat n =
     (if n < 10 then [''0123456789'' ! n]
      else show_nat (n div 10) @ [''0123456789'' ! (n mod 10)])"

declare show_nat.simps [simp del]

definition show_int :: "int \<Rightarrow> string" where
  "show_int i = (if i < 0 then CHR ''-'' # show_nat (nat (- i)) else show_nat (nat i))"

section \<open>Handles and their conversion to a JavaScript number\<close>

text \<open>
  \<^verbatim>\<open>instancePtr\<close> is a \<^verbatim>\<open>bigint\<close> read from a \<^verbatim>\<open>BigUint64Array\<close> cell, so a 64-bit
  unsigned word. \<^verbatim>\<open>Number(b)\<close> of a non-negative bigint is the nearest IEEE-754 double,
  ties to even: every integer below \<open>2 ^ 53\<close> is kept, and a larger one is rounded to 53
  significant bits. The rounded value of a 64-bit word is again an integer, so the result
  is a \<open>nat\<close>.
\<close>

type_synonym bigint = "64 word"

type_synonym bytes = "8 word list"

fun bitlen :: "nat \<Rightarrow> nat" where
  "bitlen n = (if n = 0 then 0 else Suc (bitlen (n div 2)))"

declare bitlen.simps [simp del]

definition round_to_double :: "nat \<Rightarrow> nat" where
  "round_to_double n =
     (if n < 2 ^ 53 then n
      else let e = bitlen n - 53; q = n div 2 ^ e; r = n mod 2 ^ e
           in (if 2 * r > 2 ^ e \<or> (2 * r = 2 ^ e \<and> odd q) then q + 1 else q) * 2 ^ e)"

definition Number :: "bigint \<Rightarrow> nat" where
  "Number b = round_to_double (unat b)"

section \<open>Messages crossing the boundary\<close>

text \<open>
  The generated protobuf modules (\<^verbatim>\<open>./generated/...\<close>) are not part of the sources at
  hand. A message is kept as the structured value handed to \<^verbatim>\<open>X.create({...})\<close>; the
  byte encoding \<^verbatim>\<open>inputParser.encode(input).finish()\<close> is not modelled, a call carries
  the message itself. Each \<^verbatim>\<open>oneof\<close> of a wrapper message is a datatype with one
  constructor for each field name the source sets.
\<close>

text \<open>Modelled from the spec: the enum \<^verbatim>\<open>PrependScheme\<close> (generated, absent): the
  replacement character is added at the very start, at the start of each word, or never.\<close>

datatype PrependScheme = FIRST | ALWAYS | NEVER

text \<open>Modelled from the spec: the enum \<^verbatim>\<open>SplitDelimiterBehavior\<close> (generated, absent):
  Removed, Isolated, MergedWithPrevious, MergedWithNext, Contiguous.\<close>

datatype SplitDelimiterBehavior = REMOVED | ISOLATED | MERGED_WITH_PREVIOUS | MERGED_WITH_NEXT | CONTIGUOUS

text \<open>Modelled from the spec: the enums \<^verbatim>\<open>OffsetReferential\<close> and \<^verbatim>\<open>OffsetType\<close>
  (generated, absent): offsets are read in the original or the normalized referential, in
  byte or char units.\<close>

datatype OffsetReferential = ORIGINAL | NORMALIZED

datatype OffsetType = BYTE | CHAR

datatype Rep =
    stringReplacement string string
  | regexReplacement string string

datatype UtilsSplit =
    stringSplit string SplitDelimiterBehavior bool
  | regexSplit string SplitDelimiterBehavior bool

datatype NormalizerWrapper =
    Nw_bertNormalizer bool bool bool bool
  | Nw_nfd
  | Nw_nfkd
  | Nw_nfc
  | Nw_nfkc
  | Nw_nmt
  | Nw_stripNormalizer bool bool
  | Nw_stripAccents
  | Nw_sequence "nat list"
  | Nw_lowercase
  | Nw_prepend string
  | Nw_replace Rep
  | Nw_precompiled bytes
  | Nw_byteLevel

datatype PreTokenizerWrapper =
    Pw_bertPreTokenizer
  | Pw_byteLevel bool bool bool
  | Pw_metaspace string PrependScheme bool
  | Pw_whitespace
  | Pw_whitespaceSplit
  | Pw_delimiter string
  | Pw_sequence "nat list"
  | Pw_split UtilsSplit
  | Pw_punctuation SplitDelimiterBehavior
  | Pw_digits bool
  | Pw_unicodeScripts
  | Pw_fixedLength nat

record EncodeParams =
  input :: string
  addSpecialTokens :: bool
  input2 :: "string option"
  includeTypeIds :: bool
  includeTokens :: bool
  includeWords :: bool
  includeOffsets :: bool
  includeSpecialTokensMask :: bool
  includeAttentionMask :: bool
  includeOverflowing :: bool

datatype msg =
    M_PipelineStringParams string
  | M_SplitParams OffsetReferential OffsetType bool
  | M_NormalizerWrapper NormalizerWrapper
  | M_NormalizeParams nat
  | M_PreTokenizerWrapper PreTokenizerWrapper
  | M_PreTokenizeParams nat
  | M_TokenizerFromFile string
  | M_DecodeParams "nat list" bool
  | M_EncodeParams EncodeParams

text \<open>Modelled from the spec: the message \<^verbatim>\<open>Encoding\<close> (generated, absent): parallel
  sequences of ids, tokens, type-ids, word-indices, offsets, special-token mask, attention
  mask, and an overflow list of further encodings.\<close>

datatype Encoding =
  Encoding (ids: "nat list") (typeIds: "nat list") (tokens: "string list")
    (words: "nat list") (offsets: "(nat \<times> nat) list") (specialTokensMask: "nat list")
    (attentionMask: "nat list") (overflowing: "Encoding list")

record SplitResult =
  sr_tokens :: "string list"
  sr_offsets :: "(nat \<times> nat) list"

section \<open>The native library (foreign-functions.ts, lines 67-187)\<close>

text \<open>
  \<open>symbols\<close> lists the names of the symbol table given to \<^verbatim>\<open>dlopen\<close>, in source order.
  \<^verbatim>\<open>dylib\<close> is the library object \<^verbatim>\<open>dlopen\<close> returns: it has the two members
  \<^verbatim>\<open>symbols\<close> and \<^verbatim>\<open>close\<close>, and the native functions are the members of
  \<^verbatim>\<open>dylib.symbols\<close>. \<open>dylib_symbols name\<close> is \<^verbatim>\<open>dylib.symbols.name\<close>, as
  \<^verbatim>\<open>foreign-functions.ts\<close> reads \<^verbatim>\<open>free_buffer\<close>; \<open>dylib name\<close> is \<^verbatim>\<open>dylib.name\<close>, a
  property of the library object itself, as every class reads its functions: it is
  \<^verbatim>\<open>undefined\<close> for every name but the two members.
  A value that is called is a \<open>jsvalue\<close>: only a native function can be called, calling
  \<^verbatim>\<open>undefined\<close> or the \<^verbatim>\<open>symbols\<close> object throws a \<^verbatim>\<open>TypeError\<close>; no class passes
  \<^verbatim>\<open>dylib.close\<close> to a helper, and the model treats it as the other values that are not
  native functions.
\<close>

datatype jsvalue =
    Undefined
  | NativeFunction string
  | LibraryMember string

definition symbols :: "string list" where
  "symbols =
     [''free_buffer'',
      ''new_pipeline_string'', ''get_splits'', ''free_pipeline_string'',
      ''new_normalizer_wrapper'', ''normalize'', ''free_normalizer_wrapper'',
      ''new_pre_tokenizer_wrapper'', ''pre_tokenize'', ''free_pre_tokenizer_wrapper'',
      ''tokenizer_from_file'', ''tokenizer_from_train'', ''encode'', ''decode'',
      ''free_tokenizer_wrapper'']"

definition dylib_symbols :: "string \<Rightarrow> jsvalue" where
  "dylib_symbols name = (if name \<in> set symbols then NativeFunction name else Undefined)"

definition dylib :: "string \<Rightarrow> jsvalue" where
  "dylib name =
     (if name = ''symbols'' \<or> name = ''close'' then LibraryMember name else Undefined)"

text \<open>
  A cross-boundary call, as the native side sees it: a constructor call
  \<^verbatim>\<open>func(instancePtrOut, buf, len, outPtr, outLen)\<close>, a method call
  \<^verbatim>\<open>func(instancePtr, buf, len, outPtr, outLen)\<close>, a release \<^verbatim>\<open>free_x(instancePtr)\<close>,
  and \<^verbatim>\<open>free_buffer(outPtr, outLen)\<close> (named by the buffer's content).
\<close>

datatype call =
    Create string msg
  | Method string bigint msg
  | Free string bigint
  | FreeBuffer bytes

record reply =
  status :: int
  instanceOut :: bigint
  out :: bytes

text \<open>
  The enum \<^verbatim>\<open>CallStatus\<close> is generated and absent; its members are those the switch
  of \<^verbatim>\<open>throwErrors\<close> names, and \<open>OTHER\<close> stands for any value of
  \<^verbatim>\<open>callStatusFromJSON\<close> the switch has no case for (the success member, an unrecognised
  code).
\<close>

datatype CallStatus =
    DECODE_ERROR
  | INVALID_ARGUMENTS_DETAILS
  | INVALID_ARGUMENTS
  | UNKNOWN_ENUM_VALUE
  | EMPTY_PARAMS
  | INVALID_POINTER_DETAILS
  | NORMALIZATION_ERROR_DETAILS
  | PRE_TOKENIZATION_ERROR_DETAILS
  | TOKENIZER_BUILD_ERROR_DETAILS
  | TOKENIZER_TRAINING_ERROR_DETAILS
  | TOKENIZER_SAVE_ERROR_DETAILS
  | TOKENIZER_LOAD_FILE_ERROR_DETAILS
  | TOKENIZER_ENCODING_ERROR_DETAILS
  | TOKENIZER_DECODING_ERROR_DETAILS
  | OTHER

text \<open>
  What the source takes from outside: the generated decoders and the native library.
  \<open>callStatusFromJSON\<close> is taken to return a member for every number.
  A decoder returns \<open>None\<close> where the generated code would throw on a malformed buffer.
  \<open>native\<close> answers a call given the calls made before it, so the library may keep any
  state of its own.
\<close>

record env =
  callStatusFromJSON :: "int \<Rightarrow> CallStatus"
  Error_decode :: "bytes \<Rightarrow> string option"
  DecodeResult_decode :: "bytes \<Rightarrow> string option"
  EncodeResult_decode :: "bytes \<Rightarrow> Encoding list option"
  SplitResult_decode :: "bytes \<Rightarrow> SplitResult option"
  native :: "call list \<Rightarrow> call \<Rightarrow> reply"

text \<open>
  The mutable state: the \<^verbatim>\<open>instancePtr\<close> field of every object (by object identity),
  the calls that crossed the boundary so far (oldest first), and the next unused object
  identity.
\<close>

record world =
  handles :: "nat \<Rightarrow> bigint"
  log :: "call list"
  fresh :: nat

definition protobuf_error :: error where
  "protobuf_error = Error ''protobuf decode''"

section \<open>throwErrors and the three call helpers (foreign-functions.ts)\<close>

text \<open>
  The three helpers are exported and take the function to call as their first argument,
  here a \<open>jsvalue\<close>. They release the result buffer with \<^verbatim>\<open>dylib.symbols.free_buffer\<close>,
  which the symbol table declares, so that call is made.
\<close>

definition throwErrors :: "env \<Rightarrow> int \<Rightarrow> bytes \<Rightarrow> error + unit" where
  "throwErrors env st buf =
     (case (if st > 0 then Error_decode env buf else Some []) of
        None \<Rightarrow> Inl protobuf_error
      | Some details \<Rightarrow>
         (case callStatusFromJSON env st of
            DECODE_ERROR \<Rightarrow> Inl (InvalidProtocolBuffer ''DECODE_ERROR. InvalidProtocolBuffer'')
          | INVALID_ARGUMENTS_DETAILS \<Rightarrow>
              Inl (InvalidArguments (''INVALID_ARGUMENTS_DETAILS: '' @ details))
          | INVALID_ARGUMENTS \<Rightarrow> Inl (InvalidArguments [])
          | UNKNOWN_ENUM_VALUE \<Rightarrow> Inl (RangeError ''Unknown enum value'')
          | EMPTY_PARAMS \<Rightarrow>
              Inl (EmptyParams ''EMPTY_PARAMS. A required field is not present'')
          | INVALID_POINTER_DETAILS \<Rightarrow> Inl (InvalidPointer details)
          | NORMALIZATION_ERROR_DETAILS \<Rightarrow> Inl (NormalizationError details)
          | PRE_TOKENIZATION_ERROR_DETAILS \<Rightarrow> Inl (PreTokenizationError details)
          | TOKENIZER_BUILD_ERROR_DETAILS \<Rightarrow> Inl (TokenizerBuildError details)
          | TOKENIZER_TRAINING_ERROR_DETAILS \<Rightarrow> Inl (TokenizerTrainingError details)
          | TOKENIZER_SAVE_ERROR_DETAILS \<Rightarrow> Inl (TokenizerSaveError details)
          | TOKENIZER_LOAD_FILE_ERROR_DETAILS \<Rightarrow> Inl (TokenizerLoadFileError details)
          | TOKENIZER_ENCODING_ERROR_DETAILS \<Rightarrow> Inl (TokenizerEncodingError details)
          | TOKENIZER_DECODING_ERROR_DETAILS \<Rightarrow> Inl (TokenizerDecodingError details)
          | OTHER \<Rightarrow>
              (if st > 0
               then Inl (Error (''Unknown error occurred, code: '' @ show_int st
                                  @ '', details: '' @ details))
               else Inl (Error (''Unknown error occurred, code: '' @ show_int st)))))"

definition not_a_function :: error where
  "not_a_function = TypeError ''func is not a function''"

definition createNewArgs :: "env \<Rightarrow> jsvalue \<Rightarrow> msg \<Rightarrow> world \<Rightarrow> (error + bigint) \<times> world" where
  "createNewArgs env func inp w =
     (case func of
        NativeFunction f \<Rightarrow>
         (let r = native env (log w) (Create f inp);
              w1 = w\<lparr>log := log w @ [Create f inp]\<rparr>
          in if status r \<noteq> 0 then
               (if status r > 0 then
                  (case throwErrors env (status r) (out r) of
                     Inl e \<Rightarrow> (Inl e, w1\<lparr>log := log w1 @ [FreeBuffer (out r)]\<rparr>)
                   | Inr u \<Rightarrow> (Inr (instanceOut r), w1\<lparr>log := log w1 @ [FreeBuffer (out r)]\<rparr>))
                else
                  (case throwErrors env (status r) [] of
                     Inl e \<Rightarrow> (Inl e, w1)
                   | Inr u \<Rightarrow> (Inr (instanceOut r), w1)))
             else (Inr (instanceOut r), w1))
      | _ \<Rightarrow> (Inl not_a_function, w))"

definition methodArgsResult ::
  "env \<Rightarrow> jsvalue \<Rightarrow> bigint \<Rightarrow> msg \<Rightarrow> (bytes \<Rightarrow> 'r option) \<Rightarrow> world \<Rightarrow> (error + 'r) \<times> world" where
  "methodArgsResult env func instancePtr inp resultParser w =
     (case func of
        NativeFunction f \<Rightarrow>
         (let r = native env (log w) (Method f instancePtr inp);
              w1 = w\<lparr>log := log w @ [Method f instancePtr inp]\<rparr>;
              outBuf = (if status r \<ge> 0 then out r else []);
              w2 = (if status r \<ge> 0 then w1\<lparr>log := log w1 @ [FreeBuffer (out r)]\<rparr> else w1)
          in case throwErrors env (status r) outBuf of
               Inl e \<Rightarrow> (Inl e, w2)
             | Inr u \<Rightarrow>
                (case resultParser outBuf of
                   None \<Rightarrow> (Inl protobuf_error, w2)
                 | Some res \<Rightarrow> (Inr res, w2)))
      | _ \<Rightarrow> (Inl not_a_function, w))"

definition methodArgsNoResult ::
  "env \<Rightarrow> jsvalue \<Rightarrow> bigint \<Rightarrow> msg \<Rightarrow> world \<Rightarrow> (error + unit) \<times> world" where
  "methodArgsNoResult env func instancePtr inp w =
     (case func of
        NativeFunction f \<Rightarrow>
         (let r = native env (log w) (Method f instancePtr inp);
              w1 = w\<lparr>log := log w @ [Method f instancePtr inp]\<rparr>
          in if status r \<noteq> 0 then
               (if status r > 0 then
                  (case throwErrors env (status r) (out r) of
                     Inl e \<Rightarrow> (Inl e, w1\<lparr>log := log w1 @ [FreeBuffer (out r)]\<rparr>)
                   | Inr u \<Rightarrow> (Inr (), w1\<lparr>log := log w1 @ [FreeBuffer (out r)]\<rparr>))
                else
                  (case throwErrors env (status r) [] of
                     Inl e \<Rightarrow> (Inl e, w1)
                   | Inr u \<Rightarrow> (Inr (), w1)))
             else (Inr (), w1))
      | _ \<Rightarrow> (Inl not_a_function, w))"

section \<open>Managed instances (ForeignInstance and its subclasses)\<close>

text \<open>
  An object is its class, its identity and, for the two \<^verbatim>\<open>Sequence\<close> classes, the
  array of children it keeps (\<^verbatim>\<open>normalizers\<close>, \<^verbatim>\<open>preTokenizers\<close>). The only mutable
  field, \<^verbatim>\<open>instancePtr\<close>, lives in the world's \<open>handles\<close> under the object's identity, so
  two references to one object share it. \<open>Normalizer\<close> and \<open>PreTokenizer\<close> stand for every
  subclass that does not override \<^verbatim>\<open>_dispose\<close>.
\<close>

datatype obj =
    PipelineString nat
  | Tokenizer nat
  | Normalizer nat
  | NormalizerSequence nat "obj list"
  | PreTokenizer nat
  | PreTokenizerSequence nat "obj list"

fun oid :: "obj \<Rightarrow> nat" where
  "oid (PipelineString i) = i"
| "oid (Tokenizer i) = i"
| "oid (Normalizer i) = i"
| "oid (NormalizerSequence i cs) = i"
| "oid (PreTokenizer i) = i"
| "oid (PreTokenizerSequence i cs) = i"

definition instancePtr :: "world \<Rightarrow> obj \<Rightarrow> bigint" where
  "instancePtr w x = handles w (oid x)"

definition getInstancePtr :: "world \<Rightarrow> obj \<Rightarrow> nat" where
  "getInstancePtr w x = Number (instancePtr w x)"

fun freFunc :: "obj \<Rightarrow> jsvalue" where
  "freFunc (PipelineString i) = dylib ''free_pipeline_string''"
| "freFunc (Tokenizer i) = dylib ''free_tokenizer''"
| "freFunc (Normalizer i) = dylib ''free_normalizer_wrapper''"
| "freFunc (NormalizerSequence i cs) = dylib ''free_normalizer_wrapper''"
| "freFunc (PreTokenizer i) = dylib ''free_pre_tokenizer_wrapper''"
| "freFunc (PreTokenizerSequence i cs) = dylib ''free_pre_tokenizer_wrapper''"

text \<open>\<^verbatim>\<open>ForeignInstance._dispose\<close> (foreign-functions.ts, lines 362-368).\<close>

definition base_dispose :: "obj \<Rightarrow> world \<Rightarrow> (error + unit) \<times> world" where
  "base_dispose x w =
     (if instancePtr w x = 0 then (Inr (), w)
      else (case freFunc x of
              NativeFunction f \<Rightarrow>
                (Inr (), w\<lparr>handles := (handles w)(oid x := 0),
                           log := log w @ [Free f (instancePtr w x)]\<rparr>)
            | _ \<Rightarrow> (Inl (TypeError ''this.freFunc(...) is not a function''), w)))"

text \<open>
  \<^verbatim>\<open>dispose()\<close>: \<^verbatim>\<open>_dispose\<close> as each class has it. The two \<^verbatim>\<open>Sequence\<close> classes
  first dispose every child in order (\<^verbatim>\<open>forEach\<close>; an exception leaves the loop), then
  run the inherited \<^verbatim>\<open>_dispose\<close>.
\<close>

fun dispose :: "obj \<Rightarrow> world \<Rightarrow> (error + unit) \<times> world"
  and dispose_each :: "obj list \<Rightarrow> world \<Rightarrow> (error + unit) \<times> world" where
  "dispose (PipelineString i) w = base_dispose (PipelineString i) w"
| "dispose (Tokenizer i) w = base_dispose (Tokenizer i) w"
| "dispose (Normalizer i) w = base_dispose (Normalizer i) w"
| "dispose (NormalizerSequence i cs) w =
     (case dispose_each cs w of
        (Inl e, w') \<Rightarrow> (Inl e, w')
      | (Inr u, w') \<Rightarrow> base_dispose (NormalizerSequence i cs) w')"
| "dispose (PreTokenizer i) w = base_dispose (PreTokenizer i) w"
| "dispose (PreTokenizerSequence i cs) w =
     (case dispose_each cs w of
        (Inl e, w') \<Rightarrow> (Inl e, w')
      | (Inr u, w') \<Rightarrow> base_dispose (PreTokenizerSequence i cs) w')"
| "dispose_each [] w = (Inr (), w)"
| "dispose_each (c # cs) w =
     (case dispose c w of
        (Inl e, w') \<Rightarrow> (Inl e, w')
      | (Inr u, w') \<Rightarrow> dispose_each cs w')"

text \<open>
  A constructor of a subclass: \<^verbatim>\<open>super()\<close> sets \<^verbatim>\<open>instancePtr = 0n\<close>, then the handle
  returned by \<^verbatim>\<open>createNewArgs\<close> is stored. When \<^verbatim>\<open>createNewArgs\<close> throws no object is
  returned; on success the new object takes the next unused identity.
\<close>

definition new_instance ::
  "env \<Rightarrow> jsvalue \<Rightarrow> msg \<Rightarrow> (nat \<Rightarrow> obj) \<Rightarrow> world \<Rightarrow> (error + obj) \<times> world" where
  "new_instance env func param mk w =
     (case createNewArgs env func param w of
        (Inl e, w') \<Rightarrow> (Inl e, w')
      | (Inr h, w') \<Rightarrow>
          (Inr (mk (fresh w')),
           w'\<lparr>handles := (handles w')(fresh w' := h), fresh := Suc (fresh w')\<rparr>))"

subsection \<open>pipeline-string.ts\<close>

definition PipelineString_new :: "env \<Rightarrow> string \<Rightarrow> world \<Rightarrow> (error + obj) \<times> world" where
  "PipelineString_new env original w =
     new_instance env (dylib ''new_pipeline_string'') (M_PipelineStringParams original)
       PipelineString w"

text \<open>The loop of \<^verbatim>\<open>getSplits\<close> over \<^verbatim>\<open>r.tokens\<close>; reading \<^verbatim>\<open>.start\<close> of a missing
  \<^verbatim>\<open>r.offsets[i]\<close> throws.\<close>

fun pair_splits ::
  "bool \<Rightarrow> string list \<Rightarrow> (nat \<times> nat) list \<Rightarrow> error + (string \<times> (nat \<times> nat) option) list" where
  "pair_splits inc [] offs = Inr []"
| "pair_splits inc (t # ts) offs =
     (if inc then
        (case offs of
           [] \<Rightarrow> Inl (TypeError ''Cannot read properties of undefined'')
         | off # offs' \<Rightarrow>
            (case pair_splits inc ts offs' of
               Inl e \<Rightarrow> Inl e
             | Inr res \<Rightarrow> Inr ((t, Some off) # res)))
      else
        (case pair_splits inc ts (tl offs) of
           Inl e \<Rightarrow> Inl e
         | Inr res \<Rightarrow> Inr ((t, None) # res)))"

definition getSplits ::
  "env \<Rightarrow> obj \<Rightarrow> OffsetReferential \<Rightarrow> OffsetType \<Rightarrow> bool \<Rightarrow> world
     \<Rightarrow> (error + (string \<times> (nat \<times> nat) option) list) \<times> world" where
  "getSplits env this offsetReferential offsetType incl w =
     (case methodArgsResult env (dylib ''get_splits'') (instancePtr w this)
             (M_SplitParams offsetReferential offsetType incl) (SplitResult_decode env) w of
        (Inl e, w') \<Rightarrow> (Inl e, w')
      | (Inr r, w') \<Rightarrow> (pair_splits incl (sr_tokens r) (sr_offsets r), w'))"

subsection \<open>normalizers.ts\<close>

definition Normalizer_new :: "env \<Rightarrow> NormalizerWrapper \<Rightarrow> world \<Rightarrow> (error + obj) \<times> world" where
  "Normalizer_new env param w =
     new_instance env (dylib ''new_normalizer_wrapper'') (M_NormalizerWrapper param) Normalizer w"

definition normalize_op :: "env \<Rightarrow> obj \<Rightarrow> obj \<Rightarrow> world \<Rightarrow> (error + unit) \<times> world" where
  "normalize_op env this pipelineString w =
     (if instancePtr w this = 0 then (Inl (ObjectDisposed []), w)
      else methodArgsNoResult env (dylib ''normalize'') (instancePtr w this)
             (M_NormalizeParams (getInstancePtr w pipelineString)) w)"

text \<open>The loop of both \<^verbatim>\<open>Sequence\<close> constructors; \<open>what\<close> is the text of the message before
  the index.\<close>

fun addresses_loop :: "world \<Rightarrow> string \<Rightarrow> obj list \<Rightarrow> nat \<Rightarrow> error + nat list" where
  "addresses_loop w what [] i = Inr []"
| "addresses_loop w what (x # xs) i =
     (let address = getInstancePtr w x
      in if address = 0 then Inl (ObjectDisposed (what @ show_nat i @ ''] is disposed''))
         else (case addresses_loop w what xs (Suc i) of
                 Inl e \<Rightarrow> Inl e
               | Inr addresses \<Rightarrow> Inr (address # addresses)))"

definition Normalizer_Sequence_new :: "env \<Rightarrow> obj list \<Rightarrow> world \<Rightarrow> (error + obj) \<times> world" where
  "Normalizer_Sequence_new env normalizers w =
     (case addresses_loop w ''The normalizer at index ['' normalizers 0 of
        Inl e \<Rightarrow> (Inl e, w)
      | Inr addresses \<Rightarrow>
          new_instance env (dylib ''new_normalizer_wrapper'')
            (M_NormalizerWrapper (Nw_sequence addresses))
            (\<lambda>i. NormalizerSequence i normalizers) w)"

text \<open>The constructors that compute something before \<^verbatim>\<open>super(...)\<close> are modelled in
  two steps: \<open>X_param\<close> is the code before \<^verbatim>\<open>super\<close>, which builds the message (or throws),
  and \<open>X_new\<close> hands that message to the constructor of the base class.\<close>

definition Replace_param :: "string \<Rightarrow> string \<Rightarrow> bool \<Rightarrow> NormalizerWrapper" where
  "Replace_param pattern content isRegex =
     Nw_replace (if isRegex then regexReplacement pattern content
                 else stringReplacement pattern content)"

definition Replace_new :: "env \<Rightarrow> string \<Rightarrow> string \<Rightarrow> bool \<Rightarrow> world \<Rightarrow> (error + obj) \<times> world" where
  "Replace_new env pattern content isRegex w =
     Normalizer_new env (Replace_param pattern content isRegex) w"

subsection \<open>pre-tokenizers.ts\<close>

definition PreTokenizer_new :: "env \<Rightarrow> PreTokenizerWrapper \<Rightarrow> world \<Rightarrow> (error + obj) \<times> world" where
  "PreTokenizer_new env param w =
     new_instance env (dylib ''new_pre_tokenizer_wrapper'') (M_PreTokenizerWrapper param)
       PreTokenizer w"

definition preTokenize :: "env \<Rightarrow> obj \<Rightarrow> obj \<Rightarrow> world \<Rightarrow> (error + unit) \<times> world" where
  "preTokenize env this pipelineString w =
     (if instancePtr w this = 0 then (Inl (ObjectDisposed []), w)
      else methodArgsNoResult env (dylib ''pre_tokenize'') (instancePtr w this)
             (M_PreTokenizeParams (getInstancePtr w pipelineString)) w)"

definition Metaspace_param ::
  "string \<Rightarrow> PrependScheme \<Rightarrow> bool \<Rightarrow> error + PreTokenizerWrapper" where
  "Metaspace_param replacementChar prependScheme split =
     (if length replacementChar = 0
      then Inl (Error ''replacementChar must have a length of 1'')
      else Inr (Pw_metaspace [replacementChar ! 0] prependScheme split))"

definition Metaspace_new ::
  "env \<Rightarrow> string \<Rightarrow> PrependScheme \<Rightarrow> bool \<Rightarrow> world \<Rightarrow> (error + obj) \<times> world" where
  "Metaspace_new env replacementChar prependScheme split w =
     (case Metaspace_param replacementChar prependScheme split of
        Inl e \<Rightarrow> (Inl e, w)
      | Inr param \<Rightarrow> PreTokenizer_new env param w)"

definition Delimiter_param :: "string \<Rightarrow> error + PreTokenizerWrapper" where
  "Delimiter_param delimiterChar =
     (if length delimiterChar = 0
      then Inl (Error ''delimiterChar must have a length of 1'')
      else Inr (Pw_delimiter [delimiterChar ! 0]))"

definition Delimiter_new :: "env \<Rightarrow> string \<Rightarrow> world \<Rightarrow> (error + obj) \<times> world" where
  "Delimiter_new env delimiterChar w =
     (case Delimiter_param delimiterChar of
        Inl e \<Rightarrow> (Inl e, w)
      | Inr param \<Rightarrow> PreTokenizer_new env param w)"

definition PreTokenizer_Sequence_new :: "env \<Rightarrow> obj list \<Rightarrow> world \<Rightarrow> (error + obj) \<times> world" where
  "PreTokenizer_Sequence_new env preTokenizers w =
     (case addresses_loop w ''The preTokenizers at index ['' preTokenizers 0 of
        Inl e \<Rightarrow> (Inl e, w)
      | Inr addresses \<Rightarrow>
          new_instance env (dylib ''new_pre_tokenizer_wrapper'')
            (M_PreTokenizerWrapper (Pw_sequence addresses))
            (\<lambda>i. PreTokenizerSequence i preTokenizers) w)"

definition Split_param ::
  "string \<Rightarrow> SplitDelimiterBehavior \<Rightarrow> bool \<Rightarrow> bool \<Rightarrow> PreTokenizerWrapper" where
  "Split_param pattern behavior invert isRegex =
     Pw_split (if isRegex then stringSplit pattern behavior invert
               else regexSplit pattern behavior invert)"

definition Split_new ::
  "env \<Rightarrow> string \<Rightarrow> SplitDelimiterBehavior \<Rightarrow> bool \<Rightarrow> bool \<Rightarrow> world \<Rightarrow> (error + obj) \<times> world" where
  "Split_new env pattern behavior invert isRegex w =
     PreTokenizer_new env (Split_param pattern behavior invert isRegex) w"

subsection \<open>tokenizer.ts\<close>

definition fromFile :: "env \<Rightarrow> string \<Rightarrow> world \<Rightarrow> (error + obj) \<times> world" where
  "fromFile env path w =
     new_instance env (dylib ''tokenizer_from_file'') (M_TokenizerFromFile path) Tokenizer w"

definition decode :: "env \<Rightarrow> obj \<Rightarrow> nat list \<Rightarrow> bool \<Rightarrow> world \<Rightarrow> (error + string) \<times> world" where
  "decode env this ids' skipSpecialTokens w =
     (if instancePtr w this = 0 then (Inl (ObjectDisposed []), w)
      else methodArgsResult env (dylib ''decode'') (instancePtr w this)
             (M_DecodeParams ids' skipSpecialTokens) (DecodeResult_decode env) w)"

definition encode :: "env \<Rightarrow> obj \<Rightarrow> EncodeParams \<Rightarrow> world \<Rightarrow> (error + Encoding list) \<times> world" where
  "encode env this encodeParams w =
     (if instancePtr w this = 0 then (Inl (ObjectDisposed []), w)
      else methodArgsResult env (dylib ''encode'') (instancePtr w this)
             (M_EncodeParams encodeParams) (EncodeResult_decode env) w)"

section \<open>Auxiliary notions for the statements\<close>

text \<open>The releases recorded in a log: the name of the free function and the handle given
  to it, in call order.\<close>

fun frees :: "call list \<Rightarrow> (string \<times> bigint) list" where
  "frees [] = []"
| "frees (Free f h # cs) = (f, h) # frees cs"
| "frees (c # cs) = frees cs"

text \<open>An object is released when its handle and the handle of every object below it
  is zero.\<close>

fun released :: "world \<Rightarrow> obj \<Rightarrow> bool" where
  "released w (NormalizerSequence i cs) = (handles w i = 0 \<and> list_all (released w) cs)"
| "released w (PreTokenizerSequence i cs) = (handles w i = 0 \<and> list_all (released w) cs)"
| "released w x = (handles w (oid x) = 0)"

text \<open>
  A concrete environment and world for evaluating the model: a native library that
  answers every call with status 0 and a new handle, decoders that return fixed values
  (the decoder of \<^verbatim>\<open>Error\<close> rejects the one-byte buffer \<open>[0]\<close>), status 7 standing for
  \<^verbatim>\<open>NORMALIZATION_ERROR_DETAILS\<close> and every other code unmapped. \<open>env_status st buf\<close> is
  the same with a library that answers every call with status \<open>st\<close> and buffer \<open>buf\<close>.
  In \<open>w0\<close> object 0 is live with handle 7 and every other object has handle 0.
\<close>

definition env0 :: env where
  "env0 = \<lparr>callStatusFromJSON = (\<lambda>s. if s = 7 then NORMALIZATION_ERROR_DETAILS else OTHER),
           Error_decode = (\<lambda>b. if b = [0] then None else Some ''boom''),
           DecodeResult_decode = (\<lambda>b. Some ''hello''),
           EncodeResult_decode = (\<lambda>b. Some []),
           SplitResult_decode = (\<lambda>b. Some \<lparr>sr_tokens = [], sr_offsets = []\<rparr>),
           native = (\<lambda>l c. \<lparr>status = 0, instanceOut = 1 + of_nat (length l), out = []\<rparr>)\<rparr>"


definition w0 :: world where
  "w0 = \<lparr>handles = (\<lambda>i. if i = 0 then 7 else 0), log = [], fresh = 2\<rparr>"

section \<open>Basic facts\<close>

text \<open>Every property of \<^verbatim>\<open>dylib\<close> that a class reads is \<^verbatim>\<open>undefined\<close>; the functions
  are under \<^verbatim>\<open>dylib.symbols\<close>, where the table has no \<^verbatim>\<open>free_tokenizer\<close> either.\<close>

lemma dylib_simps:
  "dylib ''free_pipeline_string'' = Undefined"
  "dylib ''free_normalizer_wrapper'' = Undefined"
  "dylib ''free_pre_tokenizer_wrapper'' = Undefined"
  "dylib ''free_tokenizer'' = Undefined"
  "dylib ''get_splits'' = Undefined"
  "dylib ''new_normalizer_wrapper'' = Undefined"
  "dylib ''new_pre_tokenizer_wrapper'' = Undefined"
  "dylib ''new_pipeline_string'' = Undefined"
  "dylib ''normalize'' = Undefined"
  "dylib ''pre_tokenize'' = Undefined"
  "dylib ''encode'' = Undefined"
  "dylib ''decode'' = Undefined"
  "dylib ''tokenizer_from_file'' = Undefined"
  by (simp_all add: dylib_def)

lemma dylib_symbols_simps:
  "dylib_symbols ''free_buffer'' = NativeFunction ''free_buffer''"
  "dylib_symbols ''free_tokenizer_wrapper'' = NativeFunction ''free_tokenizer_wrapper''"
  "dylib_symbols ''free_tokenizer'' = Undefined"
  by (simp_all add: dylib_symbols_def symbols_def)

lemma frees_append [simp]: "frees (xs @ ys) = frees xs @ frees ys"
  by (induction xs rule: frees.induct) simp_all

lemma show_int_examples:
  "show_int 0 = ''0''" "show_int 7 = ''7''" "show_int 99 = ''99''" "show_int (- 3) = ''-3''"
  by (simp_all add: show_int_def show_nat.simps)

section \<open>Result-returning methods\<close>

text \<open>Every path of \<^verbatim>\<open>throwErrors\<close> ends in a \<^verbatim>\<open>throw\<close>, whatever the status.\<close>

lemma throwErrors_raises: "\<exists>e. throwErrors env st buf = Inl e"
  by (simp add: throwErrors_def split: option.split CallStatus.split)

lemma methodArgsResult_raises:
  "\<exists>e. fst (methodArgsResult env func p inp parser w) = Inl e"
proof (cases func)
  case (NativeFunction f)
  obtain e where "throwErrors env (status (native env (log w) (Method f p inp)))
      (if status (native env (log w) (Method f p inp)) \<ge> 0
       then out (native env (log w) (Method f p inp)) else []) = Inl e"
    using throwErrors_raises by blast
  with NativeFunction show ?thesis by (simp add: methodArgsResult_def Let_def)
qed (simp_all add: methodArgsResult_def)

text \<open>The two other helpers call \<^verbatim>\<open>throwErrors\<close> under \<^verbatim>\<open>status != 0\<close> only, and
  return on status 0.\<close>

lemma methodArgsNoResult_success:
  "status (native env (log w) (Method f p inp)) = 0 \<Longrightarrow>
   methodArgsNoResult env (NativeFunction f) p inp w
     = (Inr (), w\<lparr>log := log w @ [Method f p inp]\<rparr>)"
  by (simp add: methodArgsNoResult_def Let_def)

lemma createNewArgs_success:
  "status (native env (log w) (Create f inp)) = 0 \<Longrightarrow>
   createNewArgs env (NativeFunction f) inp w
     = (Inr (instanceOut (native env (log w) (Create f inp))), w\<lparr>log := log w @ [Create f inp]\<rparr>)"
  by (simp add: createNewArgs_def Let_def)

text \<open>At a concrete success of the exported helper: the native \<^verbatim>\<open>decode\<close> answers status
  0 and the decoder would give \<^verbatim>\<open>"hello"\<close>, and \<^verbatim>\<open>methodArgsResult\<close> raises.\<close>

lemma methodArgsResult_status_0_example:
  "methodArgsResult env0 (NativeFunction ''decode'') 7 (M_DecodeParams [1] True)
       (DecodeResult_decode env0) w0
     = (Inl (Error ''Unknown error occurred, code: 0''),
        w0\<lparr>log := [Method ''decode'' 7 (M_DecodeParams [1] True), FreeBuffer []]\<rparr>)"
  by (simp add: methodArgsResult_def throwErrors_def env0_def w0_def show_int_examples)

text \<open>Through the classes the helpers get \<^verbatim>\<open>undefined\<close> for \<^verbatim>\<open>func\<close>: on a live
  instance every operation raises the \<^verbatim>\<open>TypeError\<close> of calling it, and no call crosses
  the boundary.\<close>

lemma operations_on_live_instance:
  assumes "instancePtr w this \<noteq> 0"
  shows "normalize_op env this pipelineString w = (Inl not_a_function, w)"
    and "preTokenize env this pipelineString w = (Inl not_a_function, w)"
    and "encode env this encodeParams w = (Inl not_a_function, w)"
    and "decode env this ids' skipSpecialTokens w = (Inl not_a_function, w)"
  using assms
  by (simp_all add: normalize_op_def preTokenize_def encode_def decode_def dylib_simps
      methodArgsNoResult_def methodArgsResult_def)

text \<open>
  C1. Claim: when the native function reports status 0, a result-returning method
  (\<^verbatim>\<open>Tokenizer.encode\<close>, \<^verbatim>\<open>Tokenizer.decode\<close>, \<^verbatim>\<open>PipelineString.getSplits\<close>) decodes
  and returns the result and raises no error. The code does otherwise:
  \<^verbatim>\<open>methodArgsResult\<close> calls \<^verbatim>\<open>throwErrors\<close> without a guard on the status, and
  \<^verbatim>\<open>throwErrors\<close> always throws, so for every native library, every status (0 included),
  every handle and every input, \<^verbatim>\<open>methodArgsResult\<close>, \<^verbatim>\<open>decode\<close> and \<^verbatim>\<open>getSplits\<close>
  end in an error and never return a result.
\<close>

theorem methodArgsResult_never_returns:
  "(\<exists>e. fst (methodArgsResult env func p inp parser w) = Inl e)
   \<and> (\<exists>e. fst (decode env this ids' skipSpecialTokens w) = Inl e)
   \<and> (\<exists>e. fst (getSplits env this offsetReferential offsetType incl w) = Inl e)"
proof (intro conjI)
  show "\<exists>e. fst (methodArgsResult env func p inp parser w) = Inl e"
    by (rule methodArgsResult_raises)
  obtain e where "fst (methodArgsResult env (dylib ''decode'') (instancePtr w this)
      (M_DecodeParams ids' skipSpecialTokens) (DecodeResult_decode env) w) = Inl e"
    using methodArgsResult_raises by blast
  then show "\<exists>e. fst (decode env this ids' skipSpecialTokens w) = Inl e"
    by (simp add: decode_def)
  obtain e where "fst (methodArgsResult env (dylib ''get_splits'') (instancePtr w this)
      (M_SplitParams offsetReferential offsetType incl) (SplitResult_decode env) w) = Inl e"
    using methodArgsResult_raises by blast
  then show "\<exists>e. fst (getSplits env this offsetReferential offsetType incl w) = Inl e"
    by (cases "methodArgsResult env (dylib ''get_splits'') (instancePtr w this)
      (M_SplitParams offsetReferential offsetType incl) (SplitResult_decode env) w")
       (simp add: getSplits_def)
qed

text \<open>
  C7. Claim: for all ASCII \<open>x\<close>, \<^verbatim>\<open>decode(encode(x).ids, true)\<close> equals \<open>x\<close>. On the
  code \<^verbatim>\<open>encode\<close> never returns an encoding, for any tokenizer, input and native library,
  so there are no ids to decode: the first half of the round trip always raises.
\<close>

theorem encode_never_returns: "fst (encode env this encodeParams w) \<noteq> Inr encodings"
proof -
  obtain e where "fst (methodArgsResult env (dylib ''encode'') (instancePtr w this)
             (M_EncodeParams encodeParams) (EncodeResult_decode env) w) = Inl e"
    using methodArgsResult_raises by blast
  then show ?thesis by (simp add: encode_def)
qed

section \<open>Use after release\<close>

text \<open>The four guarded operations raise \<^verbatim>\<open>ObjectDisposed\<close> on a zero handle and leave
  the world, and so the log of boundary calls, as it was.\<close>

lemma guarded_operations_raise_locally:
  assumes "instancePtr w this = 0"
  shows "normalize_op env this pipelineString w = (Inl (ObjectDisposed []), w)"
    and "preTokenize env this pipelineString w = (Inl (ObjectDisposed []), w)"
    and "encode env this encodeParams w = (Inl (ObjectDisposed []), w)"
    and "decode env this ids' skipSpecialTokens w = (Inl (ObjectDisposed []), w)"
  using assms by (simp_all add: normalize_op_def preTokenize_def encode_def decode_def)

text \<open>\<^verbatim>\<open>methodArgsResult\<close> itself has no guard on the handle either: given a native
  function it makes the call first, whatever the handle, and \<^verbatim>\<open>throwErrors\<close> has no
  \<^verbatim>\<open>ObjectDisposed\<close> among its errors.\<close>

lemma throwErrors_not_ObjectDisposed:
  "\<exists>e. throwErrors env st buf = Inl e \<and> e \<noteq> ObjectDisposed m"
  by (simp add: throwErrors_def protobuf_error_def split: option.split CallStatus.split)

lemma methodArgsResult_log:
  "take (Suc (length (log w)))
     (log (snd (methodArgsResult env (NativeFunction f) p inp parser w)))
     = log w @ [Method f p inp]"
proof -
  obtain e where "throwErrors env (status (native env (log w) (Method f p inp)))
      (if status (native env (log w) (Method f p inp)) \<ge> 0
       then out (native env (log w) (Method f p inp)) else []) = Inl e"
    using throwErrors_raises by blast
  then show ?thesis by (simp add: methodArgsResult_def Let_def)
qed

lemma methodArgsResult_not_ObjectDisposed:
  "\<exists>e. fst (methodArgsResult env func p inp parser w) = Inl e \<and> e \<noteq> ObjectDisposed m"
proof (cases func)
  case (NativeFunction f)
  obtain e where "throwErrors env (status (native env (log w) (Method f p inp)))
      (if status (native env (log w) (Method f p inp)) \<ge> 0
       then out (native env (log w) (Method f p inp)) else []) = Inl e" "e \<noteq> ObjectDisposed m"
    using throwErrors_not_ObjectDisposed by blast
  with NativeFunction show ?thesis by (simp add: methodArgsResult_def Let_def)
qed (simp_all add: methodArgsResult_def not_a_function_def)

text \<open>
  C2. Claim: on a released instance every operation (\<^verbatim>\<open>normalize\<close>, \<^verbatim>\<open>preTokenize\<close>,
  \<^verbatim>\<open>getSplits\<close>, \<^verbatim>\<open>encode\<close>, \<^verbatim>\<open>decode\<close>) raises \<^verbatim>\<open>ObjectDisposed\<close> locally.
  \<^verbatim>\<open>getSplits\<close> has no guard on the handle: on a \<^verbatim>\<open>PipelineString\<close> whose handle is zero
  it goes straight to \<^verbatim>\<open>methodArgsResult\<close> with handle 0, and what it raises is the
  \<^verbatim>\<open>TypeError\<close> of calling \<^verbatim>\<open>dylib.get_splits\<close>, not \<^verbatim>\<open>ObjectDisposed\<close>. The world below
  is any world in which the handle of the object has been set to zero.
\<close>

theorem getSplits_released_not_ObjectDisposed:
  "getSplits env (PipelineString i) offsetReferential offsetType incl
       (w\<lparr>handles := (handles w)(i := 0)\<rparr>)
     = (Inl (TypeError ''func is not a function''), w\<lparr>handles := (handles w)(i := 0)\<rparr>)
   \<and> fst (getSplits env (PipelineString i) offsetReferential offsetType incl
             (w\<lparr>handles := (handles w)(i := 0)\<rparr>)) \<noteq> Inl (ObjectDisposed m)"
  by (simp add: getSplits_def methodArgsResult_def dylib_simps not_a_function_def)

section \<open>Disposal\<close>

lemma base_dispose_released:
  "instancePtr w x = 0 \<Longrightarrow> base_dispose x w = (Inr (), w)"
  by (simp add: base_dispose_def)

lemma base_dispose_mono:
  "base_dispose x w = (r, w') \<Longrightarrow> handles w j = 0 \<Longrightarrow> handles w' j = 0"
  by (auto simp: base_dispose_def split: if_splits jsvalue.splits)

lemma base_dispose_ok:
  "base_dispose x w = (Inr u, w') \<Longrightarrow> handles w' (oid x) = 0"
  by (auto simp: base_dispose_def instancePtr_def split: if_splits jsvalue.splits)

text \<open>In every class \<^verbatim>\<open>freFunc\<close> returns a property of the library object, which is
  \<^verbatim>\<open>undefined\<close>: the inherited \<^verbatim>\<open>_dispose\<close> of a live instance of any class raises,
  calls nothing and keeps the handle.\<close>

lemma freFunc_undefined: "freFunc x = Undefined"
  by (cases x) (simp_all add: dylib_simps)

lemma base_dispose_live:
  "instancePtr w x \<noteq> 0 \<Longrightarrow>
   base_dispose x w = (Inl (TypeError ''this.freFunc(...) is not a function''), w)"
  by (simp add: base_dispose_def freFunc_undefined)

text \<open>Disposing a released object does nothing: no error, no call.\<close>

lemma dispose_released:
  "released w x \<Longrightarrow> dispose x w = (Inr (), w)"
  "list_all (released w) xs \<Longrightarrow> dispose_each xs w = (Inr (), w)"
  by (induction x w and xs w rule: dispose_dispose_each.induct)
     (simp_all add: base_dispose_def instancePtr_def)

text \<open>Disposal only ever sets handles to zero.\<close>

lemma dispose_mono:
  "dispose x w = (r, w') \<Longrightarrow> handles w j = 0 \<Longrightarrow> handles w' j = 0"
  "dispose_each xs w = (r, w') \<Longrightarrow> handles w j = 0 \<Longrightarrow> handles w' j = 0"
proof (induction x w and xs w arbitrary: r w' and r w' rule: dispose_dispose_each.induct)
  case (4 i cs w)
  then show ?case
    by (auto split: prod.splits sum.splits dest: base_dispose_mono)
next
  case (6 i cs w)
  then show ?case
    by (auto split: prod.splits sum.splits dest: base_dispose_mono)
next
  case (8 c cs w)
  then show ?case
    by (auto split: prod.splits sum.splits)
qed (auto dest: base_dispose_mono)

lemma released_mono:
  "released w x \<Longrightarrow> (\<And>j. handles w j = 0 \<Longrightarrow> handles w' j = 0) \<Longrightarrow> released w' x"
  by (induction x) (auto simp: list_all_iff)

text \<open>After a disposal that did not raise, the object and everything below it is
  released, so a further disposal does nothing.\<close>

lemma dispose_ok_released:
  "dispose x w = (Inr u, w') \<Longrightarrow> released w' x"
  "dispose_each xs w = (Inr u, w') \<Longrightarrow> list_all (released w') xs"
proof (induction x w and xs w arbitrary: u w' and u w' rule: dispose_dispose_each.induct)
  case (4 i cs w)
  then obtain w1 where a: "dispose_each cs w = (Inr (), w1)"
    and b: "base_dispose (NormalizerSequence i cs) w1 = (Inr u, w')"
    by (auto split: prod.splits sum.splits)
  from 4(1) [OF a] have "list_all (released w1) cs" .
  then have "list_all (released w') cs"
    using base_dispose_mono [OF b] by (auto simp: list_all_iff intro: released_mono)
  with base_dispose_ok [OF b] show ?case by simp
next
  case (6 i cs w)
  then obtain w1 where a: "dispose_each cs w = (Inr (), w1)"
    and b: "base_dispose (PreTokenizerSequence i cs) w1 = (Inr u, w')"
    by (auto split: prod.splits sum.splits)
  from 6(1) [OF a] have "list_all (released w1) cs" .
  then have "list_all (released w') cs"
    using base_dispose_mono [OF b] by (auto simp: list_all_iff intro: released_mono)
  with base_dispose_ok [OF b] show ?case by simp
next
  case (8 c cs w)
  then obtain w1 where a: "dispose c w = (Inr (), w1)"
    and b: "dispose_each cs w1 = (Inr u, w')"
    by (auto split: prod.splits sum.splits)
  from 8(1) [OF a] have "released w1 c" .
  then have "released w' c"
    using dispose_mono(2) [OF b] by (auto intro: released_mono)
  moreover from 8(2) [OF _ _ b] a have "list_all (released w') cs" by simp
  ultimately show ?case by simp
qed (auto dest: base_dispose_ok)

lemma dispose_after_completed_dispose:
  "dispose x w = (Inr u, w') \<Longrightarrow> dispose x w' = (Inr (), w')"
  by (rule dispose_released(1)) (rule dispose_ok_released(1))

text \<open>
  C3. Claim: for a \<^verbatim>\<open>Tokenizer\<close> with a nonzero handle, \<^verbatim>\<open>dispose()\<close> calls the free
  function the symbol table exports (\<^verbatim>\<open>free_tokenizer_wrapper\<close>) on the handle and then
  sets the handle to zero. \<^verbatim>\<open>Tokenizer.freFunc\<close> returns \<^verbatim>\<open>dylib.free_tokenizer\<close>, a name
  the symbol table does not declare and a property the library object does not have, so
  calling it throws: with a nonzero handle \<^verbatim>\<open>dispose()\<close> raises a \<^verbatim>\<open>TypeError\<close>, makes
  no call, and leaves the handle as it was (the world is returned unchanged).
\<close>

theorem Tokenizer_dispose_frees_nothing:
  "dispose (Tokenizer i) w
     = (if instancePtr w (Tokenizer i) = 0 then (Inr (), w)
        else (Inl (TypeError ''this.freFunc(...) is not a function''), w))"
  by (simp add: base_dispose_def dylib_simps)

text \<open>
  C8. Claim: for every pipeline-stage instance a second \<^verbatim>\<open>dispose\<close> does not raise and
  does not call the free function again. For a \<^verbatim>\<open>Tokenizer\<close> with a nonzero handle the
  first \<^verbatim>\<open>dispose\<close> raises and leaves the handle, so the second \<^verbatim>\<open>dispose\<close> raises the
  same \<^verbatim>\<open>TypeError\<close> again (and still frees nothing).
\<close>

theorem Tokenizer_second_dispose_raises:
  "dispose (Tokenizer i) (snd (dispose (Tokenizer i) w))
     = (if instancePtr w (Tokenizer i) = 0 then (Inr (), w)
        else (Inl (TypeError ''this.freFunc(...) is not a function''), w))"
  by (simp add: base_dispose_def dylib_simps)

section \<open>Construction of a Sequence\<close>

lemma createNewArgs_failure:
  "createNewArgs env func inp w = (Inl e, w') \<Longrightarrow>
   handles w' = handles w \<and> fresh w' = fresh w \<and> frees (log w') = frees (log w)"
  by (auto simp: createNewArgs_def Let_def split: jsvalue.splits if_splits sum.splits)

lemma new_instance_failure:
  "new_instance env func inp mk w = (Inl e, w') \<Longrightarrow>
   handles w' = handles w \<and> fresh w' = fresh w \<and> frees (log w') = frees (log w)"
  by (auto simp: new_instance_def split: prod.splits sum.splits dest: createNewArgs_failure)

lemma new_instance_failure_fst:
  assumes "fst (new_instance env func inp mk w) = Inl e"
  shows "handles (snd (new_instance env func inp mk w)) = handles w
         \<and> frees (log (snd (new_instance env func inp mk w))) = frees (log w)"
proof -
  obtain r w' where eq: "new_instance env func inp mk w = (r, w')"
    by (cases "new_instance env func inp mk w")
  with assms have "new_instance env func inp mk w = (Inl e, w')" by simp
  from new_instance_failure [OF this] eq show ?thesis by simp
qed

lemma Normalizer_Sequence_new_failure:
  "fst (Normalizer_Sequence_new env cs w) = Inl e \<Longrightarrow>
      handles (snd (Normalizer_Sequence_new env cs w)) = handles w
      \<and> frees (log (snd (Normalizer_Sequence_new env cs w))) = frees (log w)"
  by (cases "addresses_loop w ''The normalizer at index ['' cs 0")
     (simp_all add: Normalizer_Sequence_new_def new_instance_failure_fst)

lemma PreTokenizer_Sequence_new_failure:
  "fst (PreTokenizer_Sequence_new env cs w) = Inl e \<Longrightarrow>
      handles (snd (PreTokenizer_Sequence_new env cs w)) = handles w
      \<and> frees (log (snd (PreTokenizer_Sequence_new env cs w))) = frees (log w)"
  by (cases "addresses_loop w ''The preTokenizers at index ['' cs 0")
     (simp_all add: PreTokenizer_Sequence_new_def new_instance_failure_fst)

text \<open>A failure in \<^verbatim>\<open>super(...)\<close>, after every child has passed the loop: the call of
  \<^verbatim>\<open>dylib.new_normalizer_wrapper\<close> throws.\<close>

lemma Sequence_of_live_children_example:
  "Normalizer_Sequence_new env [Normalizer 0] w0 = (Inl (TypeError ''func is not a function''), w0)"
  by (simp add: Normalizer_Sequence_new_def w0_def getInstancePtr_def instancePtr_def Number_def
      round_to_double_def new_instance_def createNewArgs_def dylib_simps not_a_function_def)

text \<open>
  C4, as stated: when the construction of a \<^verbatim>\<open>Sequence\<close> fails partway, every child
  already adopted is still released exactly once. It fails on the code: with a live first
  child (handle 7) and a disposed second child the constructor raises \<^verbatim>\<open>ObjectDisposed\<close>
  for index 1, and the first child has not been released: its handle is still 7 and no
  free function has been called.
\<close>

theorem Sequence_failure_releases_no_child:
  "fst (Normalizer_Sequence_new env0 [Normalizer 0, Normalizer 1] w0)
     = Inl (ObjectDisposed ''The normalizer at index [1] is disposed'')
   \<and> instancePtr (snd (Normalizer_Sequence_new env0 [Normalizer 0, Normalizer 1] w0))
        (Normalizer 0) = 7
   \<and> frees (log (snd (Normalizer_Sequence_new env0 [Normalizer 0, Normalizer 1] w0))) = []"
  by (simp add: Normalizer_Sequence_new_def w0_def getInstancePtr_def instancePtr_def Number_def
      round_to_double_def show_nat.simps)

text \<open>
  C4, amended: when the construction of a \<^verbatim>\<open>Sequence\<close> (of normalizers or of
  pre-tokenizers) fails, because an element is disposed or because the native constructor
  fails, the constructor releases nothing: every handle is as it was before the call and no
  free function has been called.
\<close>

theorem Sequence_failure_leaves_children:
  "(fst (Normalizer_Sequence_new env cs w) = Inl e \<longrightarrow>
      handles (snd (Normalizer_Sequence_new env cs w)) = handles w
      \<and> frees (log (snd (Normalizer_Sequence_new env cs w))) = frees (log w))
   \<and> (fst (PreTokenizer_Sequence_new env cs' w) = Inl e' \<longrightarrow>
      handles (snd (PreTokenizer_Sequence_new env cs' w)) = handles w
      \<and> frees (log (snd (PreTokenizer_Sequence_new env cs' w))) = frees (log w))"
  using Normalizer_Sequence_new_failure PreTokenizer_Sequence_new_failure by blast

theorem Sequence_failure_leaves_children_witness:
  "fst (Normalizer_Sequence_new env0 [Normalizer 0, Normalizer 1] w0)
     = Inl (ObjectDisposed ''The normalizer at index [1] is disposed'')
   \<and> handles (snd (Normalizer_Sequence_new env0 [Normalizer 0, Normalizer 1] w0)) = handles w0
   \<and> frees (log (snd (Normalizer_Sequence_new env0 [Normalizer 0, Normalizer 1] w0)))
       = frees (log w0)
   \<and> fst (PreTokenizer_Sequence_new env0 [PreTokenizer 1] w0)
     = Inl (ObjectDisposed ''The preTokenizers at index [0] is disposed'')
   \<and> handles (snd (PreTokenizer_Sequence_new env0 [PreTokenizer 1] w0)) = handles w0
   \<and> frees (log (snd (PreTokenizer_Sequence_new env0 [PreTokenizer 1] w0))) = frees (log w0)"
proof -
  have a: "fst (Normalizer_Sequence_new env0 [Normalizer 0, Normalizer 1] w0)
             = Inl (ObjectDisposed ''The normalizer at index [1] is disposed'')"
    by (simp add: Normalizer_Sequence_new_def w0_def getInstancePtr_def instancePtr_def
        Number_def round_to_double_def show_nat.simps)
  have b: "fst (PreTokenizer_Sequence_new env0 [PreTokenizer 1] w0)
             = Inl (ObjectDisposed ''The preTokenizers at index [0] is disposed'')"
    by (simp add: PreTokenizer_Sequence_new_def w0_def getInstancePtr_def instancePtr_def
        Number_def round_to_double_def show_nat.simps)
  from a b
    Sequence_failure_leaves_children [of env0 "[Normalizer 0, Normalizer 1]" w0
      "ObjectDisposed ''The normalizer at index [1] is disposed''" "[PreTokenizer 1]"
      "ObjectDisposed ''The preTokenizers at index [0] is disposed''"]
  show ?thesis by blast
qed

section \<open>Delimiter and Metaspace\<close>

text \<open>A non-empty string of any length passes the guard \<^verbatim>\<open>length == 0\<close>, and the
  message built for \<^verbatim>\<open>super(...)\<close> holds its first character alone.\<close>

lemma first_character_passed_on:
  "Delimiter_param (c # cs) = Inr (Pw_delimiter [c])
   \<and> Metaspace_param (c # cs) prependScheme split = Inr (Pw_metaspace [c] prependScheme split)"
  by (simp add: Delimiter_param_def Metaspace_param_def)

text \<open>
  C5, as stated: constructing \<^verbatim>\<open>Delimiter\<close> with an empty string, or \<^verbatim>\<open>Metaspace\<close>
  with a string that is not exactly one character, fails with \<^verbatim>\<open>PreTokenizationError\<close>
  at construction. It fails on the code: the empty string gives a plain \<^verbatim>\<open>Error\<close> in
  both classes, and \<^verbatim>\<open>Metaspace\<close> with the two-character string \<^verbatim>\<open>"ab"\<close> is not
  rejected for its length: it passes the guard, the message for \<^verbatim>\<open>super(...)\<close> is built
  with \<^verbatim>\<open>"a"\<close>, and the construction fails in \<^verbatim>\<open>super(...)\<close> with the \<^verbatim>\<open>TypeError\<close> of
  calling \<^verbatim>\<open>dylib.new_pre_tokenizer_wrapper\<close>. None of the three errors is a
  \<^verbatim>\<open>PreTokenizationError\<close>.
\<close>

theorem invalid_split_configuration_not_PreTokenizationError:
  "fst (Delimiter_new env0 [] w0) = Inl (Error ''delimiterChar must have a length of 1'')
   \<and> fst (Metaspace_new env0 [] FIRST True w0)
       = Inl (Error ''replacementChar must have a length of 1'')
   \<and> Metaspace_param ''ab'' FIRST True = Inr (Pw_metaspace ''a'' FIRST True)
   \<and> Metaspace_new env0 ''ab'' FIRST True w0 = (Inl (TypeError ''func is not a function''), w0)"
  by (simp add: Delimiter_new_def Delimiter_param_def Metaspace_new_def Metaspace_param_def
      PreTokenizer_new_def new_instance_def createNewArgs_def dylib_simps not_a_function_def)

text \<open>
  C5, amended: constructing \<^verbatim>\<open>Delimiter\<close> with an empty delimiter character, or
  \<^verbatim>\<open>Metaspace\<close> with an empty replacement string, fails at construction time, in the
  constructor itself and before any native call (the world is unchanged), with a plain
  \<^verbatim>\<open>Error\<close> whose message is "delimiterChar must have a length of 1", respectively
  "replacementChar must have a length of 1".
\<close>

theorem empty_character_rejected_at_construction:
  "Delimiter_new env [] w = (Inl (Error ''delimiterChar must have a length of 1''), w)
   \<and> Metaspace_new env [] prependScheme split w
        = (Inl (Error ''replacementChar must have a length of 1''), w)"
  by (simp add: Delimiter_new_def Delimiter_param_def Metaspace_new_def Metaspace_param_def)

section \<open>Replace and Split\<close>

text \<open>Each constructor hands the message it has built to \<^verbatim>\<open>createNewArgs\<close>, through
  the constructor of its base class.\<close>

lemma message_to_createNewArgs:
  "Replace_new env pattern content isRegex w
     = new_instance env (dylib ''new_normalizer_wrapper'')
         (M_NormalizerWrapper (Replace_param pattern content isRegex)) Normalizer w"
  "Split_new env pattern behavior invert isRegex w
     = new_instance env (dylib ''new_pre_tokenizer_wrapper'')
         (M_PreTokenizerWrapper (Split_param pattern behavior invert isRegex)) PreTokenizer w"
  by (simp_all add: Replace_new_def Normalizer_new_def Split_new_def PreTokenizer_new_def)

text \<open>\<^verbatim>\<open>Replace\<close> builds a literal pattern as \<^verbatim>\<open>stringReplacement\<close> and a regex as
  \<^verbatim>\<open>regexReplacement\<close>.\<close>

lemma Replace_pattern_kind:
  "Replace_param pattern content False = Nw_replace (stringReplacement pattern content)
   \<and> Replace_param pattern content True = Nw_replace (regexReplacement pattern content)"
  by (simp add: Replace_param_def)

text \<open>
  C6. Claim: with \<^verbatim>\<open>isRegex = false\<close> the pattern is configured as a literal string, with
  \<^verbatim>\<open>isRegex = true\<close> as a regex, for \<^verbatim>\<open>Replace\<close> and for \<^verbatim>\<open>Split\<close>. \<^verbatim>\<open>Split\<close> has the
  two branches exchanged: the message its constructor builds for \<^verbatim>\<open>createNewArgs\<close>
  carries the pattern as \<^verbatim>\<open>regexSplit\<close>, and not as \<^verbatim>\<open>stringSplit\<close>, when \<^verbatim>\<open>isRegex\<close> is
  false, and as \<^verbatim>\<open>stringSplit\<close>, and not as \<^verbatim>\<open>regexSplit\<close>, when it is true.
\<close>

theorem Split_pattern_kind_exchanged:
  "Split_param pattern behavior invert False = Pw_split (regexSplit pattern behavior invert)
   \<and> Split_param pattern behavior invert False \<noteq> Pw_split (stringSplit pattern behavior invert)
   \<and> Split_param pattern behavior invert True = Pw_split (stringSplit pattern behavior invert)
   \<and> Split_param pattern behavior invert True \<noteq> Pw_split (regexSplit pattern behavior invert)"
  by (simp add: Split_param_def)

section \<open>Failure statuses\<close>





text \<open>The class of each mapped error that has details.\<close>

lemma throwErrors_mapped_classes:
  assumes "0 < st" and "Error_decode env buf = Some details"
  shows "callStatusFromJSON env st = INVALID_ARGUMENTS_DETAILS \<Longrightarrow>
           throwErrors env st buf
             = Inl (InvalidArguments (''INVALID_ARGUMENTS_DETAILS: '' @ details))"
    and "callStatusFromJSON env st = INVALID_POINTER_DETAILS \<Longrightarrow>
           throwErrors env st buf = Inl (InvalidPointer details)"
    and "callStatusFromJSON env st = NORMALIZATION_ERROR_DETAILS \<Longrightarrow>
           throwErrors env st buf = Inl (NormalizationError details)"
    and "callStatusFromJSON env st = PRE_TOKENIZATION_ERROR_DETAILS \<Longrightarrow>
           throwErrors env st buf = Inl (PreTokenizationError details)"
    and "callStatusFromJSON env st = TOKENIZER_BUILD_ERROR_DETAILS \<Longrightarrow>
           throwErrors env st buf = Inl (TokenizerBuildError details)"
    and "callStatusFromJSON env st = TOKENIZER_TRAINING_ERROR_DETAILS \<Longrightarrow>
           throwErrors env st buf = Inl (TokenizerTrainingError details)"
    and "callStatusFromJSON env st = TOKENIZER_SAVE_ERROR_DETAILS \<Longrightarrow>
           throwErrors env st buf = Inl (TokenizerSaveError details)"
    and "callStatusFromJSON env st = TOKENIZER_LOAD_FILE_ERROR_DETAILS \<Longrightarrow>
           throwErrors env st buf = Inl (TokenizerLoadFileError details)"
    and "callStatusFromJSON env st = TOKENIZER_ENCODING_ERROR_DETAILS \<Longrightarrow>
           throwErrors env st buf = Inl (TokenizerEncodingError details)"
    and "callStatusFromJSON env st = TOKENIZER_DECODING_ERROR_DETAILS \<Longrightarrow>
           throwErrors env st buf = Inl (TokenizerDecodingError details)"
  using assms by (simp_all add: throwErrors_def)




section \<open>The handle as a JavaScript number\<close>

lemma bitlen_eq: "2 ^ k \<le> n \<Longrightarrow> n < 2 ^ Suc k \<Longrightarrow> bitlen n = Suc k"
proof (induction k arbitrary: n)
  case 0
  then have "n = 1" by simp
  then show ?case by (simp add: bitlen.simps)
next
  case (Suc k)
  then have "2 ^ k \<le> n div 2" "n div 2 < 2 ^ Suc k" by auto
  from Suc.IH [OF this] Suc.prems show ?case
    by (subst bitlen.simps) auto
qed

lemma bitlen_2_53_plus_1: "bitlen 9007199254740993 = 54"
proof -
  have "bitlen 9007199254740993 = Suc 53" by (rule bitlen_eq) simp_all
  then show ?thesis by simp
qed

lemma round_to_double_2_53_plus_1: "round_to_double 9007199254740993 = 9007199254740992"
  by (simp add: round_to_double_def bitlen_2_53_plus_1)

text \<open>
  C10, as stated: the value \<^verbatim>\<open>getInstancePtr\<close> embeds in a message equals the stored
  64-bit handle for every handle, also at or above \<open>2 ^ 53\<close>. It fails on the code: for the
  handle \<open>2 ^ 53 + 1 = 9007199254740993\<close>, \<^verbatim>\<open>Number\<close> gives \<open>2 ^ 53 = 9007199254740992\<close>.
\<close>

theorem getInstancePtr_rounds_large_handle:
  "unat (instancePtr \<lparr>handles = (\<lambda>i. 9007199254740993), log = [], fresh = 1\<rparr>
           (PipelineString 0)) = 9007199254740993
   \<and> getInstancePtr \<lparr>handles = (\<lambda>i. 9007199254740993), log = [], fresh = 1\<rparr>
        (PipelineString 0) = 9007199254740992"
  by (simp add: getInstancePtr_def instancePtr_def Number_def round_to_double_2_53_plus_1)

text \<open>
  C10, amended: for every instance whose stored handle is below \<open>2 ^ 53\<close>, the value
  \<^verbatim>\<open>getInstancePtr\<close> embeds in a message equals the stored handle exactly.
\<close>

theorem getInstancePtr_exact_below_2_53:
  "unat (instancePtr w x) < 2 ^ 53 \<Longrightarrow> getInstancePtr w x = unat (instancePtr w x)"
  by (simp add: getInstancePtr_def Number_def round_to_double_def)

theorem getInstancePtr_exact_below_2_53_witness:
  "unat (instancePtr w0 (Normalizer 0)) < 2 ^ 53
   \<and> getInstancePtr w0 (Normalizer 0) = unat (instancePtr w0 (Normalizer 0))
   \<and> getInstancePtr w0 (Normalizer 0) = 7"
  using getInstancePtr_exact_below_2_53 [of w0 "Normalizer 0"]
  by (simp add: w0_def instancePtr_def)

end
